theory Spec2Isabelle
  imports Main
begin

section \<open>JavaScript values\<close>

text \<open>
  The class \<open>Blockchain\<close> of \<open>apps/remix-ide/src/blockchain/blockchain.js\<close> is
  dynamically typed. The values it passes around (addresses, amounts, flags, time stamps,
  opaque objects such as an ABI) are modelled by \<open>jsval\<close>; the only operations the class
  applies to them are the truthiness test of \<open>if (v)\<close>, \<open>v || w\<close>, \<open>v ? a : b\<close> and the
  strict comparison \<open>===\<close> with a literal.
\<close>

datatype jsval =
    JUndefined
  | JNull
  | JBool bool
  | JNum int
  | JStr string
  | JObj string

fun truthy :: "jsval \<Rightarrow> bool" where
  "truthy JUndefined = False"
| "truthy JNull = False"
| "truthy (JBool b) = b"
| "truthy (JNum n) = (n \<noteq> 0)"
| "truthy (JStr s) = (s \<noteq> [])"
| "truthy (JObj n) = True"

text \<open>
  What travels on an error channel (the first argument of a node-style callback, the reason
  of a rejected promise, a thrown value): nothing (\<open>null\<close> or \<open>undefined\<close>), a string, or an
  \<open>Error\<close> object with its message.
\<close>

datatype jserr =
    NoError
  | ErrStr string
  | ErrObj string

fun truthy_err :: "jserr \<Rightarrow> bool" where
  "truthy_err NoError = False"
| "truthy_err (ErrStr s) = (s \<noteq> [])"
| "truthy_err (ErrObj m) = True"

text \<open>
  The text of \<open>${(error.message ? error.message : error)}\<close> for a truthy \<open>error\<close>: a string
  has no \<open>message\<close> and is interpolated itself; an \<open>Error\<close> with an empty message is
  interpolated through \<open>Error.prototype.toString\<close>, which yields its name.
\<close>

fun error_text :: "jserr \<Rightarrow> string" where
  "error_text NoError = ''null''"
| "error_text (ErrStr s) = s"
| "error_text (ErrObj m) = (if m \<noteq> [] then m else ''Error'')"

datatype 'a promise = Resolved 'a | Rejected jserr | Pending

text \<open>
  A member the code reads properties of. It may be \<open>undefined\<close> or \<open>null\<close>, on which reading
  a property throws a \<open>TypeError\<close>; any other value that is not the expected object (a
  boolean, a number or a string), on which every property read yields \<open>undefined\<close> and
  whose truthiness is its own; or the object with its fields, which is truthy.
\<close>

datatype prim = PBool bool | PNum int | PStr string

fun prim_val :: "prim \<Rightarrow> jsval" where
  "prim_val (PBool b) = JBool b"
| "prim_val (PNum n) = JNum n"
| "prim_val (PStr s) = JStr s"

datatype 'a member = Nullish | Primitive prim | Object 'a

section \<open>Data model\<close>

text \<open>\<open>args.data\<close>: the formatted payload a caller hands to \<open>runTx\<close>.\<close>

record txdata =
  dataHex :: jsval
  timestamp :: jsval
  funAbi :: jsval
  funArgs :: jsval
  contractBytecode :: jsval
  contractName :: jsval
  contractABI :: jsval
  linkReferences :: jsval

text \<open>
  \<open>args\<close> of \<open>runTx\<close>. A field the caller left out is \<open>JUndefined\<close>; \<open>a_data = None\<close> is an
  \<open>args\<close> without \<open>data\<close>, on which \<open>args.data.dataHex\<close> throws.
\<close>

record args =
  a_to :: jsval
  a_data :: "txdata option"
  a_useCall :: jsval
  a_from :: jsval
  a_value :: jsval

text \<open>The normalized record \<open>tx\<close> and the \<open>payLoad\<close> built on lines 487 and 488.\<close>

record tx =
  tx_to :: jsval
  tx_data :: jsval
  tx_useCall :: jsval
  tx_from :: jsval
  tx_value :: jsval
  tx_gasLimit :: jsval
  tx_timestamp :: jsval

record payLoad =
  p_funAbi :: jsval
  p_funArgs :: jsval
  p_contractBytecode :: jsval
  p_contractName :: jsval
  p_contractABI :: jsval
  p_linkReferences :: jsval

text \<open>
  What \<open>rawRun\<close> hands to its result callback: the object \<open>result\<close>, whose member
  \<open>result.result\<close> (an \<open>inner\<close> when it is an object) carries the fields the class reads.
\<close>

record execResult =
  returnValue :: jsval

record inner =
  createdAddress :: jsval
  contractAddress :: jsval
  status :: jsval
  execResult :: "execResult member"

record txResult =
  transactionHash :: jsval
  result :: "inner member"

text \<open>
  The fourth argument of \<open>runTx\<close>'s callback: \<open>null\<close> as line 516 sets it, or what line 520
  assigns, a value (the inline return value, or a \<open>result.result\<close> that is no object) or the
  whole object \<open>result.result\<close>.
\<close>

datatype retval = RetNull | RetValue jsval | RetInner inner

text \<open>
  The arguments of \<open>runTx\<close>'s callback: \<open>cb(error)\<close>, \<open>cb(vmError.message)\<close> or
  \<open>cb(null, txResult, address, returnValue)\<close>.
\<close>

datatype cb_args = CbErr jserr | CbRes txResult jsval retval

record selectedContract =
  name :: string
  bytecodeLinkReferences :: jsval
  abi :: jsval

text \<open>The arguments of \<open>finalCb\<close>: \<open>finalCb(message)\<close> or \<open>finalCb(null, selectedContract, address)\<close>.\<close>

datatype final_args = FinalErr string | FinalOk selectedContract jsval

text \<open>
  A confirmation hook handed to \<open>rawRun\<close>: a function of the caller (known by a label
  only), or one of the three arrow functions \<open>sendTransaction\<close> builds on lines 426 to 428.
\<close>

datatype hook = CallerHook string | SendConfirm | SendContinue | SendPrompt

text \<open>The arguments of \<open>self.event.trigger\<close> on lines 491 and 500.\<close>

datatype trigger_args =
    Initiating jsval tx payLoad
  | Executed jserr jsval jsval jsval jsval txResult jsval payLoad jsval

text \<open>
  Everything the class does to the outside is recorded, in order, in a trace of events:
  calls of a collaborator, notifications, invocations of a callback, and an exception that
  leaves the function.
\<close>

datatype event =
    GetAccountsCalled string
  | Trigger string trigger_args
  | RawRunCalled tx hook hook hook
  | CheckVMErrorCalled txResult
  | CallbackCalled cb_args
  | FinalCbCalled final_args
  | Threw string

section \<open>Collaborators\<close>

text \<open>
  A provider object (\<open>VMProvider\<close>, \<open>InjectedProvider\<close>, \<open>NodeProvider\<close>; their files are not
  part of the sources): its class, and what its \<open>getAccounts\<close> passes to the callback
  (\<open>None\<close>: the callback is never invoked; the account list may be \<open>undefined\<close>).
\<close>

record provider =
  label :: string
  p_getAccounts :: "(jserr \<times> jsval list option) option"

text \<open>\<open>this.providers\<close>, an object literal \<open>{}\<close> with the own properties \<open>setupProviders\<close> adds.\<close>

record provider_registry =
  vm :: provider
  injected :: provider
  web3 :: provider

text \<open>
  The object stored in \<open>this.transactionContextAPI\<close>: each accessor may be missing; one that
  is there returns a value.
\<close>

record contextAPI =
  getGasLimit :: "jsval option"
  getValue :: "jsval option"
  getAddress :: "jsval option"

record network =
  net_id :: jsval
  net_name :: jsval

record vmError =
  error :: bool
  message :: string

text \<open>
  What \<open>txRunner.rawRun\<close> does with the functions it was given: the error it hands to the
  continue hook, if it invokes it, and the arguments of its result callback, if it invokes it.
\<close>

record rawRunBehaviour =
  continueCalled :: "jserr option"
  resultCalled :: "(jserr \<times> txResult option) option"

text \<open>
  The state of a \<open>Blockchain\<close> object and of the collaborators it talks to, constant over one
  call: \<open>this.providers\<close> as the constructor set it up, \<open>this.transactionContextAPI\<close> as
  \<open>resetAndInit\<close> stored it, \<open>executionContext.getProvider()\<close>, \<open>executionContext.isVM()\<close>,
  whether \<open>executionContext.detectNetwork\<close> invokes its callback (\<open>None\<close>: never), whether it
  does so before it returns (\<open>True\<close>) or later, and with which error and network, whether
  \<open>providers.vm.RemixSimulatorProvider.Accounts.accounts[address]\<close> is truthy,
  \<open>providers.vm.createVMAccount\<close> (\<open>Inl\<close> when it throws), \<open>txRunner.rawRun\<close>,
  \<open>txExecution.checkVMError\<close>, \<open>resultToRemixTx\<close> (\<open>Inl\<close> when it throws) and \<open>Date.now()\<close>.
  The functions among them are not part of the sources and stay parameters.
\<close>

record env =
  getProvider :: string
  isVM :: bool
  detectNetwork :: "(bool \<times> jserr \<times> network member) option"
  providers :: provider_registry
  transactionContextAPI :: contextAPI
  vmAccounts :: "jsval \<Rightarrow> bool"
  vm_createVMAccount :: "jsval \<Rightarrow> jserr + jsval"
  rawRun :: "tx \<Rightarrow> hook \<Rightarrow> hook \<Rightarrow> hook \<Rightarrow> rawRunBehaviour"
  checkVMError :: "txResult \<Rightarrow> vmError"
  resultToRemixTx :: "txResult option \<Rightarrow> jserr + jsval"
  now :: jsval

section \<open>The provider registry\<close>

text \<open>Lines 54 to 59.\<close>

definition setupProviders :: "provider \<Rightarrow> provider \<Rightarrow> provider \<Rightarrow> provider_registry" where
  "setupProviders vmProvider injectedProvider nodeProvider =
     \<lparr>vm = vmProvider, injected = injectedProvider, web3 = nodeProvider\<rparr>"

text \<open>
  The property names every object literal inherits from \<open>Object.prototype\<close>; each is bound
  to a function or, for \<open>__proto__\<close>, to the prototype object, so each is truthy.
\<close>

definition objectPrototypeNames :: "string list" where
  "objectPrototypeNames =
     [''constructor'', ''hasOwnProperty'', ''isPrototypeOf'', ''propertyIsEnumerable'',
      ''toLocaleString'', ''toString'', ''valueOf'', ''__proto__'',
      ''__defineGetter__'', ''__defineSetter__'', ''__lookupGetter__'', ''__lookupSetter__'']"

text \<open>
  The value of \<open>this.providers[provider]\<close>: an own property, an inherited one, or \<open>undefined\<close>.
\<close>

datatype property = OwnProvider provider | Inherited string | Missing

definition lookupProvider :: "provider_registry \<Rightarrow> string \<Rightarrow> property" where
  "lookupProvider ps n =
     (if n = ''vm'' then OwnProvider (vm ps)
      else if n = ''injected'' then OwnProvider (injected ps)
      else if n = ''web3'' then OwnProvider (web3 ps)
      else if n \<in> set objectPrototypeNames then Inherited n
      else Missing)"

text \<open>Lines 61 to 65.\<close>

definition getCurrentProvider :: "env \<Rightarrow> property" where
  "getCurrentProvider e =
     (let provider = getProvider e in
      case lookupProvider (providers e) provider of
        Missing \<Rightarrow> OwnProvider (web3 (providers e))
      | found \<Rightarrow> found)"

text \<open>
  Lines 69 to 81, called without a callback as \<open>runTx\<close> does: the promise and the events.
  On a value that is no provider, \<open>.getAccounts(...)\<close> throws a \<open>TypeError\<close> (the text is the
  engine's) inside the promise's executor, which rejects the promise with it.
\<close>

definition getAccounts :: "env \<Rightarrow> event list \<times> jsval list option promise" where
  "getAccounts e =
     (case getCurrentProvider e of
        OwnProvider p \<Rightarrow>
          ([GetAccountsCalled (label p)],
           (case p_getAccounts p of
              None \<Rightarrow> Pending
            | Some (err, accounts) \<Rightarrow>
                if truthy_err err then Rejected err else Resolved accounts))
      | _ \<Rightarrow> ([], Rejected (ErrObj ''this.getCurrentProvider(...).getAccounts is not a function'')))"

text \<open>Lines 390 to 395: \<open>Inl\<close> is a thrown error.\<close>

definition createVMAccount :: "env \<Rightarrow> jsval \<Rightarrow> jserr + jsval" where
  "createVMAccount e newAccount =
     (if getProvider e \<noteq> ''vm''
      then Inl (ErrObj ''plugin API does not allow creating a new account through web3 connection. Only vm mode is allowed'')
      else vm_createVMAccount e newAccount)"

section \<open>The transaction pipeline: \<open>runTx\<close>\<close>

text \<open>Lines 451 to 454.\<close>

definition runTx_gasLimit :: "contextAPI \<Rightarrow> jsval" where
  "runTx_gasLimit api =
     (case getGasLimit api of
        Some limit \<Rightarrow> limit
      | None \<Rightarrow> JNum 3000000)"

text \<open>Lines 455 to 463.\<close>

definition runTx_value :: "contextAPI \<Rightarrow> args \<Rightarrow> jsval" where
  "runTx_value api a =
     (if truthy (a_value a) then a_value a
      else if truthy (a_useCall a) \<or> getValue api = None then JNum 0
      else (case getValue api of Some v \<Rightarrow> v | None \<Rightarrow> JNum 0))"

text \<open>
  The body of the \<open>try\<close> block, lines 473 to 481: \<open>Some (Inl err)\<close> when it throws \<open>err\<close>
  (a rejected \<open>await\<close>, \<open>accounts[0]\<close> on \<open>undefined\<close>, or one of the two \<open>throw\<close>
  statements), \<open>Some (Inr address)\<close> when it reaches line 481, \<open>None\<close> when the awaited
  promise never settles.
\<close>

definition runTx_try :: "env \<Rightarrow> event list \<times> (jserr + jsval) option" where
  "runTx_try e =
     (case getAccounts e of
        (evs, Pending) \<Rightarrow> (evs, None)
      | (evs, Rejected err) \<Rightarrow> (evs, Some (Inl err))
      | (evs, Resolved None) \<Rightarrow> (evs, Some (Inl (ErrObj ''TypeError'')))
      | (evs, Resolved (Some accounts)) \<Rightarrow>
          (let address = (case accounts of [] \<Rightarrow> JUndefined | first # _ \<Rightarrow> first) in
           if \<not> truthy address then (evs, Some (Inl (ErrObj ''No accounts available'')))
           else if isVM e \<and> \<not> vmAccounts e address
             then (evs, Some (Inl (ErrObj ''Invalid account selected'')))
           else (evs, Some (Inr address))))"

text \<open>
  Lines 465 to 485: the events and the resolved \<open>from\<close>. The \<open>catch\<close> clause of line 482
  takes every error of the \<open>try\<close> block and assigns \<open>0\<close>.
\<close>

definition runTx_from :: "env \<Rightarrow> args \<Rightarrow> event list \<times> jsval option" where
  "runTx_from e a =
     (if truthy (a_from a) then ([], Some (a_from a))
      else case getAddress (transactionContextAPI e) of
        Some address \<Rightarrow> ([], Some address)
      | None \<Rightarrow>
          (case runTx_try e of
             (evs, None) \<Rightarrow> (evs, None)
           | (evs, Some (Inl err)) \<Rightarrow> (evs, Some (JNum 0))
           | (evs, Some (Inr address)) \<Rightarrow> (evs, Some address)))"

text \<open>
  Lines 499 to 523 of the result callback, once \<open>rawAddress\<close> is read: the executed
  notification, the check of the simulated backend, and the caller's callback with the
  \<open>address\<close> and \<open>returnValue\<close> that lines 515 to 521 computed. \<open>cb\<close> is the caller's
  callback: a function from its arguments to the events it causes.
\<close>

definition runTx_deliver ::
  "env \<Rightarrow> tx \<Rightarrow> jsval \<Rightarrow> payLoad \<Rightarrow> (cb_args \<Rightarrow> event list) \<Rightarrow> txResult
     \<Rightarrow> jsval \<Rightarrow> jsval \<Rightarrow> retval \<Rightarrow> event list"
where
  "runTx_deliver e t stamp pl cb txRes rawAddress address returnVal =
     (let eventName = (if truthy (tx_useCall t) then ''callExecuted'' else ''transactionExecuted'');
          executed = Trigger eventName
            (Executed NoError (tx_from t) (tx_to t) (tx_data t) (tx_useCall t) txRes stamp pl rawAddress)
      in if isVM e
         then (if error (checkVMError e txRes)
               then [executed, CheckVMErrorCalled txRes]
                    @ cb (CbErr (ErrStr (message (checkVMError e txRes))))
               else [executed, CheckVMErrorCalled txRes] @ cb (CbRes txRes address returnVal))
         else [executed] @ cb (CbRes txRes address returnVal))"

text \<open>
  The function handed to \<open>rawRun\<close> as its result callback, lines 495 to 524, applied to
  \<open>(error, result)\<close>; \<open>None\<close> is a \<open>result\<close> that is no object. Line 498 reads
  \<open>result.result.createdAddress\<close> (or \<open>contractAddress\<close>): it throws when \<open>result\<close> is no
  object or \<open>result.result\<close> is \<open>undefined\<close> or \<open>null\<close>, and reads \<open>undefined\<close> when
  \<open>result.result\<close> is another value that is no object. Line 517 tests \<open>result.result\<close>: when
  it is falsy, \<open>address\<close> and \<open>returnValue\<close> stay \<open>null\<close>; when it is truthy, line 518 reads
  the address again and line 520 takes \<open>execResult.returnValue\<close> if \<open>execResult\<close> is truthy
  and the backend simulated, and \<open>result.result\<close> itself otherwise.
\<close>

definition runTx_resultCb ::
  "env \<Rightarrow> tx \<Rightarrow> jsval \<Rightarrow> payLoad \<Rightarrow> (cb_args \<Rightarrow> event list) \<Rightarrow> jserr \<Rightarrow> txResult option \<Rightarrow> event list"
where
  "runTx_resultCb e t stamp pl cb err res =
     (if truthy_err err then cb (CbErr err)
      else case res of
        None \<Rightarrow> [Threw ''TypeError'']
      | Some txRes \<Rightarrow>
          (case result txRes of
             Nullish \<Rightarrow> [Threw ''TypeError'']
           | Primitive v \<Rightarrow>
               runTx_deliver e t stamp pl cb txRes JUndefined
                 (if truthy (prim_val v) then JUndefined else JNull)
                 (if truthy (prim_val v) then RetValue (prim_val v) else RetNull)
           | Object r \<Rightarrow>
               runTx_deliver e t stamp pl cb txRes
                 (if isVM e then createdAddress r else contractAddress r)
                 (if isVM e then createdAddress r else contractAddress r)
                 (case execResult r of
                    Nullish \<Rightarrow> RetInner r
                  | Primitive w \<Rightarrow>
                      if truthy (prim_val w) \<and> isVM e then RetValue JUndefined else RetInner r
                  | Object ex \<Rightarrow> if isVM e then RetValue (returnValue ex) else RetInner r)))"

text \<open>
  Lines 446 to 526. An \<open>args\<close> without \<open>data\<close> throws on line 487, after sender resolution
  and before any notification; a sender resolution that never resumes ends the trace.
\<close>

definition runTx ::
  "env \<Rightarrow> args \<Rightarrow> hook \<Rightarrow> hook \<Rightarrow> hook \<Rightarrow> (cb_args \<Rightarrow> event list) \<Rightarrow> event list"
where
  "runTx e a confirmationCb continueCb promptCb cb =
     (let gasLimit = runTx_gasLimit (transactionContextAPI e);
          val = runTx_value (transactionContextAPI e) a
      in case runTx_from e a of
           (evs, None) \<Rightarrow> evs
         | (evs, Some sender) \<Rightarrow>
             (case a_data a of
                None \<Rightarrow> evs @ [Threw ''TypeError'']
              | Some d \<Rightarrow>
                  (let t = \<lparr>tx_to = a_to a, tx_data = dataHex d, tx_useCall = a_useCall a,
                            tx_from = sender, tx_value = val, tx_gasLimit = gasLimit,
                            tx_timestamp = timestamp d\<rparr>;
                       pl = \<lparr>p_funAbi = funAbi d, p_funArgs = funArgs d,
                             p_contractBytecode = contractBytecode d,
                             p_contractName = contractName d, p_contractABI = contractABI d,
                             p_linkReferences = linkReferences d\<rparr>;
                       stamp = (if truthy (tx_timestamp t) then tx_timestamp t else now e)
                   in evs
                      @ [Trigger ''initiatingTransaction'' (Initiating stamp t pl),
                         RawRunCalled t confirmationCb continueCb promptCb]
                      @ (case resultCalled (rawRun e t confirmationCb continueCb promptCb) of
                           None \<Rightarrow> []
                         | Some (err, res) \<Rightarrow> runTx_resultCb e t stamp pl cb err res))))"

text \<open>A callback that only records that it was invoked, and with what.\<close>

definition recordCb :: "cb_args \<Rightarrow> event list" where
  "recordCb x = [CallbackCalled x]"

definition recordFinalCb :: "final_args \<Rightarrow> event list" where
  "recordFinalCb x = [FinalCbCalled x]"

section \<open>Contract creation: \<open>createContract\<close>\<close>

text \<open>
  The callback \<open>createContract\<close> hands to \<open>runTx\<close>, lines 116 to 124. Invoked with a falsy
  first argument and nothing else, it reads \<open>txResult.result\<close> of \<open>undefined\<close> and throws; so
  does reading \<open>status\<close> of a \<open>txResult.result\<close> that is \<open>undefined\<close> or \<open>null\<close>. Another
  \<open>txResult.result\<close> that is no object has no \<open>status\<close>.
\<close>

definition createContract_cb ::
  "selectedContract \<Rightarrow> (final_args \<Rightarrow> event list) \<Rightarrow> cb_args \<Rightarrow> event list"
where
  "createContract_cb c finalCb x =
     (case x of
        CbErr err \<Rightarrow>
          if truthy_err err
          then finalCb (FinalErr (''creation of '' @ name c @ '' errored: '' @ error_text err))
          else [Threw ''TypeError'']
      | CbRes txRes address rv \<Rightarrow>
          (case result txRes of
             Nullish \<Rightarrow> [Threw ''TypeError'']
           | Primitive v \<Rightarrow> finalCb (FinalOk c address)
           | Object r \<Rightarrow>
               if truthy (status r) \<and> status r = JStr ''0x0''
               then finalCb (FinalErr (''creation of '' @ name c @ '' errored: transaction execution failed''))
               else finalCb (FinalOk c address)))"

text \<open>Lines 108 to 126.\<close>

definition createContract ::
  "env \<Rightarrow> selectedContract \<Rightarrow> txdata option \<Rightarrow> hook \<Rightarrow> hook \<Rightarrow> hook
     \<Rightarrow> (final_args \<Rightarrow> event list) \<Rightarrow> event list"
where
  "createContract e c d continueCb promptCb confirmationCb finalCb =
     (let d' = (case d of
                  None \<Rightarrow> None
                | Some v \<Rightarrow> Some (v\<lparr>contractName := JStr (name c),
                                     linkReferences := bytecodeLinkReferences c,
                                     contractABI := abi c\<rparr>))
      in runTx e
           \<lparr>a_to = JUndefined, a_data = d', a_useCall = JBool False,
            a_from = JUndefined, a_value = JUndefined\<rparr>
           confirmationCb continueCb promptCb (createContract_cb c finalCb))"

section \<open>Raw submission: \<open>sendTransaction\<close>\<close>

text \<open>
  How the promise of \<open>sendTransaction\<close> settles once \<open>rawRun\<close> runs, lines 426 to 436: the
  continue hook rejects on an error, the result callback rejects on an error and resolves
  with \<open>resultToRemixTx(result)\<close> otherwise, unless that throws; the first settlement stands.
\<close>

definition sendTransaction_settle :: "env \<Rightarrow> rawRunBehaviour \<Rightarrow> jsval promise" where
  "sendTransaction_settle e b =
     (let fromResult =
            (case resultCalled b of
               None \<Rightarrow> Pending
             | Some (err, res) \<Rightarrow>
                 if truthy_err err then Rejected err
                 else (case resultToRemixTx e res of
                         Inl thrown \<Rightarrow> Rejected thrown
                       | Inr remixTx \<Rightarrow> Resolved remixTx))
      in case continueCalled b of
           None \<Rightarrow> fromResult
         | Some err \<Rightarrow> if truthy_err err then Rejected err else fromResult)"

text \<open>
  Lines 416 to 440: the events and the returned promise. When network detection never calls
  back the promise stays pending. When it reports neither an error nor a network,
  \<open>network.name\<close> throws a \<open>TypeError\<close> (the text is the engine's) on line 420: in a callback
  invoked before \<open>detectNetwork\<close> returns, the throw leaves the executor of the promise, which
  rejects the promise with it; in a callback invoked later it is uncaught and the promise
  stays pending. A network that is no object has neither name nor id.
\<close>

definition sendTransaction :: "env \<Rightarrow> tx \<Rightarrow> event list \<times> jsval promise" where
  "sendTransaction e t =
     (let dispatch =
            ([RawRunCalled t SendConfirm SendContinue SendPrompt],
             sendTransaction_settle e (rawRun e t SendConfirm SendContinue SendPrompt))
      in case detectNetwork e of
           None \<Rightarrow> ([], Pending)
         | Some (synchronous, err, net) \<Rightarrow>
             if truthy_err err then ([], Rejected err)
             else (case net of
                     Nullish \<Rightarrow>
                       if synchronous
                       then ([], Rejected (ErrObj ''Cannot read properties of undefined''))
                       else ([Threw ''TypeError''], Pending)
                   | Primitive v \<Rightarrow> dispatch
                   | Object n \<Rightarrow>
                       if net_name n = JStr ''Main'' \<and> net_id n = JStr ''1''
                       then ([], Rejected (ErrObj ''It is not allowed to make this action against mainnet''))
                       else dispatch))"

text \<open>Recognisers of events, for statements about traces.\<close>

fun isInitiating :: "event \<Rightarrow> bool" where
  "isInitiating (Trigger n x) = (n = ''initiatingTransaction'')"
| "isInitiating _ = False"

fun isExecuted :: "event \<Rightarrow> bool" where
  "isExecuted (Trigger n x) = (n = ''callExecuted'' \<or> n = ''transactionExecuted'')"
| "isExecuted _ = False"

fun isRawRun :: "event \<Rightarrow> bool" where
  "isRawRun (RawRunCalled t h1 h2 h3) = True"
| "isRawRun _ = False"

fun isGetAccounts :: "event \<Rightarrow> bool" where
  "isGetAccounts (GetAccountsCalled n) = True"
| "isGetAccounts _ = False"


fun isCallbackError :: "event \<Rightarrow> bool" where
  "isCallbackError (CallbackCalled (CbErr err)) = True"
| "isCallbackError _ = False"

fun isFinalOk :: "event \<Rightarrow> bool" where
  "isFinalOk (FinalCbCalled (FinalOk c address)) = True"
| "isFinalOk _ = False"

section \<open>Concrete inputs\<close>

text \<open>
  A result as the simulated backend and a remote node would both fill it: it carries a
  created address and a contract address, and they differ.
\<close>

definition exampleResult :: txResult where
  "exampleResult =
     \<lparr>transactionHash = JStr ''0xhash'',
      result = Object \<lparr>createdAddress = JStr ''0xC1'', contractAddress = JStr ''0xC2'',
                     status = JStr ''0x1'',
                     execResult = Object \<lparr>returnValue = JStr ''0x2a''\<rparr>\<rparr>\<rparr>"

text \<open>The same with the zero status of a reverted transaction.\<close>

definition exampleZeroStatus :: txResult where
  "exampleZeroStatus =
     \<lparr>transactionHash = JStr ''0xhash'',
      result = Object \<lparr>createdAddress = JUndefined, contractAddress = JUndefined,
                     status = JStr ''0x0'', execResult = Nullish\<rparr>\<rparr>"

text \<open>
  A \<open>Blockchain\<close> on the simulated backend with two accounts, no accessor in its transaction
  context, and a submission engine that answers every dispatch with \<open>exampleResult\<close>. The
  remote-node provider knows no account.
\<close>

definition exampleEnv :: env where
  "exampleEnv =
     \<lparr>getProvider = ''vm'', isVM = True,
      detectNetwork = Some (True, NoError, Object \<lparr>net_id = JStr ''-'', net_name = JStr ''VM''\<rparr>),
      providers = setupProviders
        \<lparr>label = ''VMProvider'',
         p_getAccounts = Some (NoError, Some [JStr ''0xA1'', JStr ''0xA2''])\<rparr>
        \<lparr>label = ''InjectedProvider'', p_getAccounts = Some (NoError, Some [JStr ''0xB1''])\<rparr>
        \<lparr>label = ''NodeProvider'', p_getAccounts = Some (NoError, Some [])\<rparr>,
      transactionContextAPI = \<lparr>getGasLimit = None, getValue = None, getAddress = None\<rparr>,
      vmAccounts = (\<lambda>a. a = JStr ''0xA1'' \<or> a = JStr ''0xA2''),
      vm_createVMAccount = (\<lambda>newAccount. Inr (JStr ''0xA3'')),
      rawRun = (\<lambda>t h1 h2 h3. \<lparr>continueCalled = None,
                                resultCalled = Some (NoError, Some exampleResult)\<rparr>),
      checkVMError = (\<lambda>r. \<lparr>error = False, message = []\<rparr>),
      resultToRemixTx = (\<lambda>r. Inr (JObj ''remixTx'')),
      now = JNum 1600000000000\<rparr>"

text \<open>The same object after the execution context switched to a remote node.\<close>

definition exampleNodeEnv :: env where
  "exampleNodeEnv = exampleEnv\<lparr>getProvider := ''web3'', isVM := False\<rparr>"

definition exampleData :: txdata where
  "exampleData =
     \<lparr>dataHex = JStr ''0x6080'', timestamp = JUndefined, funAbi = JObj ''funAbi'',
      funArgs = JObj ''funArgs'', contractBytecode = JStr ''0x6080'',
      contractName = JStr ''Storage'', contractABI = JObj ''abi'',
      linkReferences = JObj ''linkReferences''\<rparr>"

definition exampleArgs :: args where
  "exampleArgs =
     \<lparr>a_to = JStr ''0xD1'', a_data = Some exampleData, a_useCall = JBool False,
      a_from = JUndefined, a_value = JUndefined\<rparr>"

definition exampleContract :: selectedContract where
  "exampleContract = \<lparr>name = ''Storage'', bytecodeLinkReferences = JObj ''links'', abi = JObj ''abi''\<rparr>"

definition exampleTx :: tx where
  "exampleTx =
     \<lparr>tx_to = JStr ''0xD1'', tx_data = JStr ''0x6080'', tx_useCall = JBool False,
      tx_from = JStr ''0xA1'', tx_value = JNum 0, tx_gasLimit = JNum 3000000,
      tx_timestamp = JUndefined\<rparr>"

definition examplePayLoad :: payLoad where
  "examplePayLoad =
     \<lparr>p_funAbi = JObj ''funAbi'', p_funArgs = JObj ''funArgs'',
      p_contractBytecode = JStr ''0x6080'', p_contractName = JStr ''Storage'',
      p_contractABI = JObj ''abi'', p_linkReferences = JObj ''linkReferences''\<rparr>"

text \<open>A call (\<open>useCall\<close> set) without and with an explicit value, and an intent with an explicit sender.\<close>

definition exampleCall :: args where
  "exampleCall = exampleArgs\<lparr>a_useCall := JBool True\<rparr>"

definition exampleCallWithValue :: args where
  "exampleCallWithValue = exampleArgs\<lparr>a_useCall := JBool True, a_value := JNum 5\<rparr>"

definition exampleArgsFrom :: args where
  "exampleArgsFrom = exampleArgs\<lparr>a_from := JStr ''0xF1''\<rparr>"

text \<open>A transaction context with a default value.\<close>

definition exampleEnvWithValue :: env where
  "exampleEnvWithValue =
     exampleEnv\<lparr>transactionContextAPI := \<lparr>getGasLimit = None, getValue = Some (JNum 7), getAddress = None\<rparr>\<rparr>"


text \<open>A submission engine that answers with a zero-status result, and one that reports a cancellation.\<close>

definition exampleZeroStatusEnv :: env where
  "exampleZeroStatusEnv =
     exampleEnv\<lparr>rawRun := (\<lambda>t h1 h2 h3. \<lparr>continueCalled = None,
                                           resultCalled = Some (NoError, Some exampleZeroStatus)\<rparr>)\<rparr>"

definition exampleCancelEnv :: env where
  "exampleCancelEnv =
     exampleEnv\<lparr>rawRun := (\<lambda>t h1 h2 h3. \<lparr>continueCalled = None,
                                           resultCalled = Some (ErrStr ''Transaction canceled by user.'', None)\<rparr>)\<rparr>"

definition exampleCreationTx :: tx where
  "exampleCreationTx = exampleTx\<lparr>tx_to := JUndefined\<rparr>"

text \<open>A remote node whose network is detected as the production network.\<close>

definition exampleMainnetEnv :: env where
  "exampleMainnetEnv =
     exampleNodeEnv\<lparr>detectNetwork :=
       Some (False, NoError, Object \<lparr>net_id = JStr ''1'', net_name = JStr ''Main''\<rparr>)\<rparr>"

section \<open>Facts about traces\<close>

lemmas example_defs = exampleEnv_def exampleNodeEnv_def exampleResult_def exampleZeroStatus_def
  exampleData_def exampleArgs_def exampleContract_def exampleTx_def examplePayLoad_def
  setupProviders_def

lemmas runTx_defs = runTx_def runTx_value_def runTx_from_def runTx_try_def getAccounts_def
  getCurrentProvider_def lookupProvider_def runTx_gasLimit_def runTx_resultCb_def runTx_deliver_def recordCb_def
  Let_def

lemmas createContract_defs = createContract_def createContract_cb_def recordFinalCb_def

text \<open>Sender resolution talks to nobody but the provider's account list.\<close>

lemma getAccounts_events:
  "x \<in> set (fst (getAccounts e)) \<Longrightarrow> isGetAccounts x"
  by (auto simp: getAccounts_def split: property.splits option.splits)

lemma runTx_try_events:
  "x \<in> set (fst (runTx_try e)) \<Longrightarrow> isGetAccounts x"
  using getAccounts_events [of x e]
  by (auto simp: runTx_try_def Let_def split: prod.splits promise.splits option.splits if_splits)

lemma runTx_from_events:
  "x \<in> set (fst (runTx_from e a)) \<Longrightarrow> isGetAccounts x"
  using runTx_try_events [of x e]
  by (auto simp: runTx_from_def split: prod.splits option.splits sum.splits if_splits)

text \<open>Handling a result dispatches nothing and asks for no account list.\<close>

lemma runTx_resultCb_no_dispatch:
  "RawRunCalled t k1 k2 k3 \<notin> set (runTx_resultCb e t' stamp pl recordCb err res)"
  by (auto simp: runTx_resultCb_def runTx_deliver_def recordCb_def Let_def split: option.splits member.splits)

lemma runTx_resultCb_no_getAccounts:
  "GetAccountsCalled l \<notin> set (runTx_resultCb e t' stamp pl recordCb err res)"
  by (auto simp: runTx_resultCb_def runTx_deliver_def recordCb_def Let_def split: option.splits member.splits)

lemma runTx_resultCb_error:
  "truthy_err err \<Longrightarrow> runTx_resultCb e t stamp pl cb err res = cb (CbErr err)"
  by (simp add: runTx_resultCb_def runTx_deliver_def)

text \<open>The record a run dispatches carries the resolved fields, and the caller's hooks.\<close>

lemma runTx_dispatched:
  assumes "RawRunCalled t k1 k2 k3 \<in> set (runTx e a h1 h2 h3 recordCb)"
  shows "tx_value t = runTx_value (transactionContextAPI e) a
         \<and> snd (runTx_from e a) = Some (tx_from t)
         \<and> tx_gasLimit t = runTx_gasLimit (transactionContextAPI e)
         \<and> tx_useCall t = a_useCall a \<and> tx_to t = a_to a
         \<and> k1 = h1 \<and> k2 = h2 \<and> k3 = h3"
proof (cases "runTx_from e a")
  case (Pair evs r)
  have noRaw: "RawRunCalled t k1 k2 k3 \<notin> set evs"
    using runTx_from_events [of "RawRunCalled t k1 k2 k3" e a] Pair by auto
  show ?thesis
  proof (cases r)
    case None
    with Pair assms noRaw show ?thesis by (simp add: runTx_def)
  next
    case (Some sender)
    show ?thesis
    proof (cases "a_data a")
      case None
      with Pair Some assms noRaw show ?thesis by (simp add: runTx_def)
    next
      case (Some d)
      with Pair \<open>r = Some sender\<close> assms noRaw runTx_resultCb_no_dispatch [of t k1 k2 k3 e]
      show ?thesis
        by (auto simp: runTx_def Let_def split: option.splits member.splits)
    qed
  qed
qed

lemma createContract_cb_no_dispatch:
  "RawRunCalled t k1 k2 k3 \<notin> set (createContract_cb c recordFinalCb x)"
  by (auto simp: createContract_cb_def recordFinalCb_def split: cb_args.splits option.splits member.splits)

lemma runTx_resultCb_create_no_dispatch:
  "RawRunCalled t k1 k2 k3
     \<notin> set (runTx_resultCb e t' stamp pl (createContract_cb c recordFinalCb) err res)"
  using createContract_cb_no_dispatch [of t k1 k2 k3 c]
  by (auto simp: runTx_resultCb_def runTx_deliver_def Let_def split: option.splits member.splits)

lemma runTx_resultCb_zero_status:
  assumes "\<not> truthy_err err"
    and "result txRes = Object r"
    and "status r = JStr ''0x0''"
    and "\<not> (isVM e \<and> error (checkVMError e txRes))"
  shows "\<exists>evs. runTx_resultCb e t stamp pl (createContract_cb c recordFinalCb) err (Some txRes) =
           evs @ [FinalCbCalled (FinalErr (''creation of '' @ name c
                    @ '' errored: transaction execution failed''))]
         \<and> \<not> list_ex isFinalOk evs"
  using assms
  by (auto simp: runTx_resultCb_def runTx_deliver_def createContract_cb_def recordFinalCb_def Let_def)

text \<open>An element that follows a prefix it does not occur in, and differs from the next one.\<close>

lemma split_before:
  "xs @ y # ys = pre @ x # post \<Longrightarrow> x \<notin> set xs \<Longrightarrow> x \<noteq> y \<Longrightarrow> y \<in> set pre"
proof (induction xs arbitrary: pre)
  case Nil
  then show ?case by (cases pre) auto
next
  case (Cons z zs)
  then show ?case by (cases pre) auto
qed

text \<open>
  A \<open>result.result\<close> that is neither \<open>undefined\<close>, \<open>null\<close> nor an object has no field to read:
  the executed notification carries \<open>undefined\<close>, and the callback receives \<open>undefined\<close> with
  the value itself when the value is truthy, and \<open>null\<close> twice when it is falsy (line 517).
\<close>

lemma runTx_resultCb_no_object:
  assumes "\<not> truthy_err err"
    and "result txRes = Primitive v"
  shows "runTx_resultCb e t stamp pl cb err (Some txRes) =
           runTx_deliver e t stamp pl cb txRes JUndefined
             (if truthy (prim_val v) then JUndefined else JNull)
             (if truthy (prim_val v) then RetValue (prim_val v) else RetNull)"
  using assms by (simp add: runTx_resultCb_def)

text \<open>
  For a provider name that is not a property inherited from \<open>Object.prototype\<close>,
  \<open>getCurrentProvider\<close> returns the registered provider, and the remote-node provider for
  every other name.
\<close>

lemma getCurrentProvider_own_or_default:
  assumes "getProvider e \<notin> set objectPrototypeNames"
  shows "getCurrentProvider e =
           OwnProvider (if getProvider e = ''vm'' then vm (providers e)
                        else if getProvider e = ''injected'' then injected (providers e)
                        else web3 (providers e))"
  using assms by (simp add: getCurrentProvider_def lookupProvider_def Let_def)

section \<open>Account resolution with no account available\<close>

text \<open>
  On every submission whose intent has no explicit \<open>from\<close>, whose context exposes no
  default-address accessor and whose active provider answers with an empty account list,
  line 477 throws \<open>No accounts available\<close> and the \<open>catch\<close> clause of line 482 discards it:
  the sender becomes \<open>0\<close> and, when the intent carries data, the record is announced and
  dispatched; the caller's callback is invoked only from the handling of the dispatch's
  result.
\<close>

lemma runTx_no_account_sentinel:
  assumes "\<not> truthy (a_from a)"
    and "getAddress (transactionContextAPI e) = None"
    and "getCurrentProvider e = OwnProvider p"
    and "p_getAccounts p = Some (err, Some [])"
    and "\<not> truthy_err err"
  shows "runTx_try e = ([GetAccountsCalled (label p)], Some (Inl (ErrObj ''No accounts available'')))
         \<and> runTx_from e a = ([GetAccountsCalled (label p)], Some (JNum 0))
         \<and> (\<forall>d. a_data a = Some d \<longrightarrow>
               (\<exists>stamp t pl rest. tx_from t = JNum 0
                  \<and> runTx e a h1 h2 h3 cb =
                      [GetAccountsCalled (label p),
                       Trigger ''initiatingTransaction'' (Initiating stamp t pl),
                       RawRunCalled t h1 h2 h3] @ rest
                  \<and> rest = (case resultCalled (rawRun e t h1 h2 h3) of
                              None \<Rightarrow> []
                            | Some (err', res) \<Rightarrow> runTx_resultCb e t stamp pl cb err' res)))"
proof -
  have t: "runTx_try e = ([GetAccountsCalled (label p)], Some (Inl (ErrObj ''No accounts available'')))"
    using assms by (simp add: runTx_try_def getAccounts_def)
  then have f: "runTx_from e a = ([GetAccountsCalled (label p)], Some (JNum 0))"
    using assms by (simp add: runTx_from_def)
  have "\<exists>stamp t pl rest. tx_from t = JNum 0
          \<and> runTx e a h1 h2 h3 cb =
              [GetAccountsCalled (label p),
               Trigger ''initiatingTransaction'' (Initiating stamp t pl),
               RawRunCalled t h1 h2 h3] @ rest
          \<and> rest = (case resultCalled (rawRun e t h1 h2 h3) of
                      None \<Rightarrow> []
                    | Some (err', res) \<Rightarrow> runTx_resultCb e t stamp pl cb err' res)"
    if "a_data a = Some d" for d
    using that f by (simp add: runTx_def Let_def)
  with t f show ?thesis by blast
qed

text \<open>
  Claim C1 says that a submission through \<open>runTx\<close> whose intent has no explicit \<open>from\<close>,
  whose context exposes no default-address accessor and whose active provider returns an
  empty account list fails with the \<open>No accounts available\<close> error, reported to the caller's
  callback, and that no submission proceeds. The code raises that error and loses it. On a
  remote node that knows no account, the \<open>try\<close> block of \<open>runTx\<close> throws
  \<open>No accounts available\<close>, yet the run requests the account list, announces the record,
  dispatches it to \<open>rawRun\<close> with the sender \<open>0\<close>, emits the executed notification and hands
  the caller's callback the result of the dispatch: no error reaches it.
\<close>

theorem runTx_no_account_error_discarded:
  "\<not> truthy (a_from exampleArgs)
   \<and> getAddress (transactionContextAPI exampleNodeEnv) = None
   \<and> getAccounts exampleNodeEnv = ([GetAccountsCalled ''NodeProvider''], Resolved (Some []))
   \<and> runTx_try exampleNodeEnv =
       ([GetAccountsCalled ''NodeProvider''], Some (Inl (ErrObj ''No accounts available'')))
   \<and> runTx exampleNodeEnv exampleArgs
        (CallerHook ''confirm'') (CallerHook ''continue'') (CallerHook ''prompt'') recordCb
      = [GetAccountsCalled ''NodeProvider'',
         Trigger ''initiatingTransaction''
           (Initiating (JNum 1600000000000) (exampleTx\<lparr>tx_from := JNum 0\<rparr>) examplePayLoad),
         RawRunCalled (exampleTx\<lparr>tx_from := JNum 0\<rparr>)
           (CallerHook ''confirm'') (CallerHook ''continue'') (CallerHook ''prompt''),
         Trigger ''transactionExecuted''
           (Executed NoError (JNum 0) (JStr ''0xD1'') (JStr ''0x6080'') (JBool False)
              exampleResult (JNum 1600000000000) examplePayLoad (JStr ''0xC2'')),
         CallbackCalled (CbRes exampleResult (JStr ''0xC2'')
           (RetInner \<lparr>createdAddress = JStr ''0xC1'', contractAddress = JStr ''0xC2'',
                      status = JStr ''0x1'',
                      execResult = Object \<lparr>returnValue = JStr ''0x2a''\<rparr>\<rparr>))]
   \<and> \<not> list_ex isCallbackError
         (runTx exampleNodeEnv exampleArgs
            (CallerHook ''confirm'') (CallerHook ''continue'') (CallerHook ''prompt'') recordCb)"
  by (simp add: example_defs runTx_defs)

section \<open>The mainnet guard of \<open>sendTransaction\<close>\<close>

text \<open>
  Claim C2. For every call of \<open>sendTransaction\<close> where network detection reports (without an
  error) a network with name \<open>'Main'\<close> and id \<open>'1'\<close>, the returned promise is rejected with
  the error \<open>It is not allowed to make this action against mainnet\<close>, and \<open>rawRun\<close> is not
  invoked.
\<close>

theorem sendTransaction_mainnet_disallowed:
  assumes "detectNetwork e = Some (synchronous, err, Object n)"
    and "\<not> truthy_err err"
    and "net_name n = JStr ''Main''"
    and "net_id n = JStr ''1''"
  shows "snd (sendTransaction e t) =
           Rejected (ErrObj ''It is not allowed to make this action against mainnet'')
         \<and> \<not> list_ex isRawRun (fst (sendTransaction e t))"
  using assms by (simp add: sendTransaction_def)

theorem sendTransaction_mainnet_disallowed_witness:
  "detectNetwork exampleMainnetEnv =
     Some (False, NoError, Object \<lparr>net_id = JStr ''1'', net_name = JStr ''Main''\<rparr>)
   \<and> \<not> truthy_err NoError
   \<and> snd (sendTransaction exampleMainnetEnv exampleTx) =
       Rejected (ErrObj ''It is not allowed to make this action against mainnet'')
   \<and> \<not> list_ex isRawRun (fst (sendTransaction exampleMainnetEnv exampleTx))"
  using sendTransaction_mainnet_disallowed [of exampleMainnetEnv False NoError
          "\<lparr>net_id = JStr ''1'', net_name = JStr ''Main''\<rparr>" exampleTx]
  by (simp add: exampleMainnetEnv_def example_defs)

section \<open>The value of a call\<close>

text \<open>
  An intent with \<open>useCall\<close> set to \<open>true\<close> and an explicit value of 5 is resolved to the value
  5, and dispatched with it: line 457 tests \<open>args.value\<close> before line 459 tests \<open>args.useCall\<close>.
\<close>

theorem runTx_useCall_explicit_value_counterexample:
  "a_useCall exampleCallWithValue = JBool True
   \<and> runTx_value (transactionContextAPI exampleEnv) exampleCallWithValue = JNum 5
   \<and> RawRunCalled (exampleTx\<lparr>tx_useCall := JBool True, tx_value := JNum 5\<rparr>)
        (CallerHook ''confirm'') (CallerHook ''continue'') (CallerHook ''prompt'')
      \<in> set (runTx exampleEnv exampleCallWithValue
                (CallerHook ''confirm'') (CallerHook ''continue'') (CallerHook ''prompt'') recordCb)"
  by (simp add: exampleCallWithValue_def example_defs runTx_defs)

text \<open>
  Claim C3, as amended. For every intent submitted through \<open>runTx\<close> with \<open>useCall\<close> set and no
  (truthy) explicit value, the resolved value of the normalized record is 0, whether or not
  the transaction context exposes a default-value accessor and whatever the other fields of
  the intent are; every record such a run dispatches carries the value 0.
\<close>

theorem runTx_useCall_value_zero:
  assumes "truthy (a_useCall a)"
    and "\<not> truthy (a_value a)"
  shows "runTx_value (transactionContextAPI e) a = JNum 0
         \<and> (\<forall>t k1 k2 k3. RawRunCalled t k1 k2 k3 \<in> set (runTx e a h1 h2 h3 recordCb)
               \<longrightarrow> tx_value t = JNum 0)"
proof -
  have v: "runTx_value (transactionContextAPI e) a = JNum 0"
    using assms by (simp add: runTx_value_def)
  show ?thesis
    using v runTx_dispatched [of _ _ _ _ e a h1 h2 h3] by auto
qed

theorem runTx_useCall_value_zero_witness:
  "truthy (a_useCall exampleCall) \<and> \<not> truthy (a_value exampleCall)
   \<and> getValue (transactionContextAPI exampleEnvWithValue) = Some (JNum 7)
   \<and> runTx_value (transactionContextAPI exampleEnvWithValue) exampleCall = JNum 0
   \<and> RawRunCalled (exampleTx\<lparr>tx_useCall := JBool True\<rparr>)
        (CallerHook ''confirm'') (CallerHook ''continue'') (CallerHook ''prompt'')
      \<in> set (runTx exampleEnvWithValue exampleCall
                (CallerHook ''confirm'') (CallerHook ''continue'') (CallerHook ''prompt'') recordCb)
   \<and> tx_value (exampleTx\<lparr>tx_useCall := JBool True\<rparr>) = JNum 0"
  using runTx_useCall_value_zero [of exampleCall exampleEnvWithValue
          "CallerHook ''confirm''" "CallerHook ''continue''" "CallerHook ''prompt''"]
  by (simp add: exampleCall_def exampleEnvWithValue_def example_defs runTx_defs)

section \<open>Handling the result of a dispatch\<close>





section \<open>Contract creation with a zero status\<close>

text \<open>
  Claim C6. For every contract creation through \<open>createContract\<close> whose dispatch completes
  without an error (\<open>rawRun\<close> reports none, and on the simulated backend the check of the
  result reports none) and whose result has the status \<open>'0x0'\<close>, the final callback is
  invoked last, with the single argument
  \<open>creation of X errored: transaction execution failed\<close>, and it is never invoked with a
  created address.
\<close>

theorem createContract_zero_status:
  assumes "RawRunCalled t k1 k2 k3
             \<in> set (createContract e c d continueCb promptCb confirmationCb recordFinalCb)"
    and "resultCalled (rawRun e t k1 k2 k3) = Some (err, Some txRes)"
    and "\<not> truthy_err err"
    and "result txRes = Object r"
    and "status r = JStr ''0x0''"
    and "\<not> (isVM e \<and> error (checkVMError e txRes))"
  shows "(\<exists>evs. createContract e c d continueCb promptCb confirmationCb recordFinalCb =
            evs @ [FinalCbCalled (FinalErr (''creation of '' @ name c
                     @ '' errored: transaction execution failed''))])
         \<and> \<not> list_ex isFinalOk
               (createContract e c d continueCb promptCb confirmationCb recordFinalCb)"
proof -
  define a where "a = \<lparr>a_to = JUndefined,
      a_data = (case d of None \<Rightarrow> None
                | Some v \<Rightarrow> Some (v\<lparr>contractName := JStr (name c),
                                     linkReferences := bytecodeLinkReferences c,
                                     contractABI := abi c\<rparr>)),
      a_useCall = JBool False, a_from = JUndefined, a_value = JUndefined\<rparr>"
  have cc: "createContract e c d continueCb promptCb confirmationCb recordFinalCb =
              runTx e a confirmationCb continueCb promptCb (createContract_cb c recordFinalCb)"
    by (simp add: createContract_def a_def)
  obtain evs s where fr: "runTx_from e a = (evs, s)" by (cases "runTx_from e a")
  have ga: "\<And>x. x \<in> set evs \<Longrightarrow> isGetAccounts x"
    using runTx_from_events [of _ e a] fr by simp
  then have noRaw: "RawRunCalled t k1 k2 k3 \<notin> set evs" by fastforce
  have noOk: "\<not> list_ex isFinalOk evs"
  proof
    assume "list_ex isFinalOk evs"
    then obtain x where "x \<in> set evs" "isFinalOk x" by (auto simp: list_ex_iff)
    with ga [of x] show False by (cases x) simp_all
  qed
  from assms(1) cc fr noRaw obtain sender dat where
    s: "s = Some sender" and dat: "a_data a = Some dat"
    by (cases s; cases "a_data a") (auto simp: runTx_def)
  define t0 where "t0 = \<lparr>tx_to = a_to a, tx_data = dataHex dat, tx_useCall = a_useCall a,
                          tx_from = sender, tx_value = runTx_value (transactionContextAPI e) a,
                          tx_gasLimit = runTx_gasLimit (transactionContextAPI e),
                          tx_timestamp = timestamp dat\<rparr>"
  define pl where "pl = \<lparr>p_funAbi = funAbi dat, p_funArgs = funArgs dat,
                          p_contractBytecode = contractBytecode dat,
                          p_contractName = contractName dat, p_contractABI = contractABI dat,
                          p_linkReferences = linkReferences dat\<rparr>"
  define stamp where "stamp = (if truthy (tx_timestamp t0) then tx_timestamp t0 else now e)"
  define rest where
    "rest = (case resultCalled (rawRun e t0 confirmationCb continueCb promptCb) of
               None \<Rightarrow> []
             | Some (err, res) \<Rightarrow>
                 runTx_resultCb e t0 stamp pl (createContract_cb c recordFinalCb) err res)"
  have tr: "runTx e a confirmationCb continueCb promptCb (createContract_cb c recordFinalCb) =
          evs @ [Trigger ''initiatingTransaction'' (Initiating stamp t0 pl),
                 RawRunCalled t0 confirmationCb continueCb promptCb] @ rest"
    using fr s dat
    by (simp add: runTx_def Let_def t0_def pl_def stamp_def rest_def split: option.splits member.splits)
  have restNoRaw: "RawRunCalled t k1 k2 k3 \<notin> set rest"
    using runTx_resultCb_create_no_dispatch [of t k1 k2 k3 e t0 stamp pl c]
    by (auto simp: rest_def split: option.splits member.splits)
  from assms(1) cc tr noRaw restNoRaw
  have same: "t = t0" "k1 = confirmationCb" "k2 = continueCb" "k3 = promptCb" by auto
  with assms(2)
  have rest: "rest = runTx_resultCb e t0 stamp pl (createContract_cb c recordFinalCb) err (Some txRes)"
    by (simp add: rest_def)
  from runTx_resultCb_zero_status [OF assms(3-6), of t0 stamp pl c] rest
  obtain evs' where
    r: "rest = evs' @ [FinalCbCalled (FinalErr (''creation of '' @ name c
                         @ '' errored: transaction execution failed''))]"
    and r': "\<not> list_ex isFinalOk evs'" by auto
  have "createContract e c d continueCb promptCb confirmationCb recordFinalCb =
          (evs @ [Trigger ''initiatingTransaction'' (Initiating stamp t0 pl),
                 RawRunCalled t0 confirmationCb continueCb promptCb] @ evs')
          @ [FinalCbCalled (FinalErr (''creation of '' @ name c
               @ '' errored: transaction execution failed''))]"
    using cc tr r by simp
  moreover
  have "\<not> list_ex isFinalOk (createContract e c d continueCb promptCb confirmationCb recordFinalCb)"
    unfolding cc tr r using r' noOk by (auto simp: list_ex_iff)
  ultimately show ?thesis by blast
qed

theorem createContract_zero_status_witness:
  "RawRunCalled exampleCreationTx (CallerHook ''confirm'') (CallerHook ''continue'')
     (CallerHook ''prompt'')
     \<in> set (createContract exampleZeroStatusEnv exampleContract (Some exampleData)
              (CallerHook ''continue'') (CallerHook ''prompt'') (CallerHook ''confirm'')
              recordFinalCb)
   \<and> resultCalled (rawRun exampleZeroStatusEnv exampleCreationTx
        (CallerHook ''confirm'') (CallerHook ''continue'') (CallerHook ''prompt''))
      = Some (NoError, Some exampleZeroStatus)
   \<and> \<not> truthy_err NoError
   \<and> result exampleZeroStatus =
       Object \<lparr>createdAddress = JUndefined, contractAddress = JUndefined,
             status = JStr ''0x0'', execResult = Nullish\<rparr>
   \<and> \<not> (isVM exampleZeroStatusEnv \<and> error (checkVMError exampleZeroStatusEnv exampleZeroStatus))
   \<and> (\<exists>evs. createContract exampleZeroStatusEnv exampleContract (Some exampleData)
              (CallerHook ''continue'') (CallerHook ''prompt'') (CallerHook ''confirm'')
              recordFinalCb =
            evs @ [FinalCbCalled
                     (FinalErr ''creation of Storage errored: transaction execution failed'')])
   \<and> \<not> list_ex isFinalOk
         (createContract exampleZeroStatusEnv exampleContract (Some exampleData)
            (CallerHook ''continue'') (CallerHook ''prompt'') (CallerHook ''confirm'')
            recordFinalCb)"
proof -
  have h: "RawRunCalled exampleCreationTx (CallerHook ''confirm'') (CallerHook ''continue'')
       (CallerHook ''prompt'')
     \<in> set (createContract exampleZeroStatusEnv exampleContract (Some exampleData)
              (CallerHook ''continue'') (CallerHook ''prompt'') (CallerHook ''confirm'')
              recordFinalCb)"
    "resultCalled (rawRun exampleZeroStatusEnv exampleCreationTx
        (CallerHook ''confirm'') (CallerHook ''continue'') (CallerHook ''prompt''))
      = Some (NoError, Some exampleZeroStatus)"
    "\<not> truthy_err NoError"
    "result exampleZeroStatus =
       Object \<lparr>createdAddress = JUndefined, contractAddress = JUndefined,
             status = JStr ''0x0'', execResult = Nullish\<rparr>"
    "status \<lparr>createdAddress = JUndefined, contractAddress = JUndefined,
             status = JStr ''0x0'', execResult = Nullish\<rparr> = JStr ''0x0''"
    "\<not> (isVM exampleZeroStatusEnv \<and> error (checkVMError exampleZeroStatusEnv exampleZeroStatus))"
    by (simp_all add: exampleZeroStatusEnv_def exampleCreationTx_def example_defs runTx_defs
        createContract_defs)
  have n: "name exampleContract = ''Storage''" by (simp add: exampleContract_def)
  from createContract_zero_status [OF h] h n show ?thesis by simp
qed

section \<open>The active provider\<close>

text \<open>
  Claim C7 says that \<open>getCurrentProvider\<close> returns the provider registered under the active
  name, and the remote-node provider for every name that is not registered. The code tests
  \<open>this.providers[provider]\<close> on line 63, and \<open>this.providers\<close> is an object literal: for
  the active name \<open>constructor\<close>, which names none of the three registered providers, the
  test finds the inherited property, and the function returns it and not the remote-node
  provider of line 64. It does not throw. (For every name that is no inherited property
  the claim holds: \<open>getCurrentProvider_own_or_default\<close>.)
\<close>

theorem getCurrentProvider_inherited_property:
  "getCurrentProvider (exampleNodeEnv\<lparr>getProvider := ''constructor''\<rparr>) = Inherited ''constructor''
   \<and> getCurrentProvider (exampleNodeEnv\<lparr>getProvider := ''constructor''\<rparr>)
       \<noteq> OwnProvider (web3 (providers exampleNodeEnv))
   \<and> getCurrentProvider (exampleNodeEnv\<lparr>getProvider := ''constructor''\<rparr>)
       \<noteq> OwnProvider (vm (providers exampleNodeEnv))
   \<and> getCurrentProvider (exampleNodeEnv\<lparr>getProvider := ''constructor''\<rparr>)
       \<noteq> OwnProvider (injected (providers exampleNodeEnv))"
  by (simp add: getCurrentProvider_def lookupProvider_def objectPrototypeNames_def example_defs)

section \<open>An explicit sender\<close>

text \<open>
  Claim C8. For every intent submitted through \<open>runTx\<close> with an explicit (truthy) \<open>from\<close>,
  the resolved sender is that \<open>from\<close>, resolution makes no call at all, the whole run makes
  no \<open>getAccounts\<close> call to a provider, and every record it dispatches carries that sender.
\<close>

theorem runTx_explicit_from:
  assumes "truthy (a_from a)"
  shows "runTx_from e a = ([], Some (a_from a))
         \<and> \<not> list_ex isGetAccounts (runTx e a h1 h2 h3 recordCb)
         \<and> (\<forall>t k1 k2 k3. RawRunCalled t k1 k2 k3 \<in> set (runTx e a h1 h2 h3 recordCb)
               \<longrightarrow> tx_from t = a_from a)"
proof -
  have f: "runTx_from e a = ([], Some (a_from a))"
    using assms by (simp add: runTx_from_def)
  have "\<not> isGetAccounts x" if "x \<in> set (runTx e a h1 h2 h3 recordCb)" for x
  proof (cases x)
    case (GetAccountsCalled l)
    with that f runTx_resultCb_no_getAccounts [of l e] show ?thesis
      by (auto simp: runTx_def Let_def split: option.splits member.splits)
  qed simp_all
  then have g: "\<not> list_ex isGetAccounts (runTx e a h1 h2 h3 recordCb)"
    by (auto simp: list_ex_iff)
  have "tx_from t = a_from a" if "RawRunCalled t k1 k2 k3 \<in> set (runTx e a h1 h2 h3 recordCb)"
    for t k1 k2 k3
    using runTx_dispatched [OF that] f by simp
  with f g show ?thesis by blast
qed

theorem runTx_explicit_from_witness:
  "truthy (a_from exampleArgsFrom)
   \<and> runTx_from exampleEnv exampleArgsFrom = ([], Some (JStr ''0xF1''))
   \<and> \<not> list_ex isGetAccounts (runTx exampleEnv exampleArgsFrom
          (CallerHook ''confirm'') (CallerHook ''continue'') (CallerHook ''prompt'') recordCb)
   \<and> RawRunCalled (exampleTx\<lparr>tx_from := JStr ''0xF1''\<rparr>)
        (CallerHook ''confirm'') (CallerHook ''continue'') (CallerHook ''prompt'')
      \<in> set (runTx exampleEnv exampleArgsFrom
                (CallerHook ''confirm'') (CallerHook ''continue'') (CallerHook ''prompt'') recordCb)"
  using runTx_explicit_from [of exampleArgsFrom exampleEnv
          "CallerHook ''confirm''" "CallerHook ''continue''" "CallerHook ''prompt''"]
  by (simp add: exampleArgsFrom_def example_defs runTx_defs)

section \<open>The order of notifications\<close>

text \<open>
  Claim C9. In the trace of every single submission through \<open>runTx\<close>, whatever the caller's
  callback does, each \<open>callExecuted\<close> or \<open>transactionExecuted\<close> notification is preceded by
  the \<open>initiatingTransaction\<close> notification. If the dispatch of the submission reports an
  error to its result callback (as it does when the caller cancels through a confirmation
  hook), or never invokes it, no executed notification is emitted for that submission.
\<close>

theorem runTx_notification_order:
  "(runTx e a h1 h2 h3 cb = pre @ x # post \<and> isExecuted x \<longrightarrow> list_ex isInitiating pre)
   \<and> (RawRunCalled t k1 k2 k3 \<in> set (runTx e a h1 h2 h3 recordCb)
        \<and> (case resultCalled (rawRun e t k1 k2 k3) of
              None \<Rightarrow> True
            | Some (err, res) \<Rightarrow> truthy_err err)
        \<longrightarrow> \<not> list_ex isExecuted (runTx e a h1 h2 h3 recordCb))"
proof (intro conjI impI)
  obtain evs s where fr: "runTx_from e a = (evs, s)" by (cases "runTx_from e a")
  have ga: "\<And>y. y \<in> set evs \<Longrightarrow> isGetAccounts y"
    using runTx_from_events [of _ e a] fr by simp
  have noExec: "\<And>y. y \<in> set evs \<Longrightarrow> \<not> isExecuted y"
  proof -
    fix y assume "y \<in> set evs"
    from ga [OF this] show "\<not> isExecuted y" by (cases y) simp_all
  qed
  {
    assume asm: "runTx e a h1 h2 h3 cb = pre @ x # post \<and> isExecuted x"
    then have tr: "runTx e a h1 h2 h3 cb = pre @ x # post" and ex: "isExecuted x" by simp_all
    have xevs: "x \<notin> set evs" using noExec ex by blast
    show "list_ex isInitiating pre"
    proof (cases s)
      case None
      with fr tr have "evs = pre @ x # post" by (simp add: runTx_def)
      with xevs show ?thesis by simp
    next
      case (Some sender)
      show ?thesis
      proof (cases "a_data a")
        case None
        with fr Some tr have "evs @ [Threw ''TypeError''] = pre @ x # post"
          by (simp add: runTx_def)
        then have "x \<in> set (evs @ [Threw ''TypeError''])" by simp
        with xevs ex show ?thesis by auto
      next
        case (Some d)
        with fr \<open>s = Some sender\<close> tr obtain stamp t0 pl rest where
          eq: "evs @ Trigger ''initiatingTransaction'' (Initiating stamp t0 pl) # rest
                 = pre @ x # post"
          by (simp add: runTx_def Let_def)
        have ne: "x \<noteq> Trigger ''initiatingTransaction'' (Initiating stamp t0 pl)"
          using ex by auto
        have "Trigger ''initiatingTransaction'' (Initiating stamp t0 pl) \<in> set pre"
          by (rule split_before [OF eq xevs ne])
        moreover have "isInitiating (Trigger ''initiatingTransaction'' (Initiating stamp t0 pl))"
          by simp
        ultimately show ?thesis unfolding list_ex_iff by blast
      qed
    qed
  }
  {
    assume asm: "RawRunCalled t k1 k2 k3 \<in> set (runTx e a h1 h2 h3 recordCb)
        \<and> (case resultCalled (rawRun e t k1 k2 k3) of
              None \<Rightarrow> True
            | Some (err, res) \<Rightarrow> truthy_err err)"
    then have disp: "RawRunCalled t k1 k2 k3 \<in> set (runTx e a h1 h2 h3 recordCb)"
      and rep: "case resultCalled (rawRun e t k1 k2 k3) of None \<Rightarrow> True
            | Some (err, res) \<Rightarrow> truthy_err err" by simp_all
    have noRaw: "RawRunCalled t k1 k2 k3 \<notin> set evs" using ga by fastforce
    from disp fr noRaw obtain sender d where s: "s = Some sender" and d: "a_data a = Some d"
      by (cases s; cases "a_data a") (auto simp: runTx_def)
    define t0 where "t0 = \<lparr>tx_to = a_to a, tx_data = dataHex d, tx_useCall = a_useCall a,
                            tx_from = sender, tx_value = runTx_value (transactionContextAPI e) a,
                            tx_gasLimit = runTx_gasLimit (transactionContextAPI e),
                            tx_timestamp = timestamp d\<rparr>"
    define pl where "pl = \<lparr>p_funAbi = funAbi d, p_funArgs = funArgs d,
                            p_contractBytecode = contractBytecode d,
                            p_contractName = contractName d, p_contractABI = contractABI d,
                            p_linkReferences = linkReferences d\<rparr>"
    define stamp where "stamp = (if truthy (tx_timestamp t0) then tx_timestamp t0 else now e)"
    define rest where "rest = (case resultCalled (rawRun e t0 h1 h2 h3) of
                                 None \<Rightarrow> []
                               | Some (err, res) \<Rightarrow> runTx_resultCb e t0 stamp pl recordCb err res)"
    have tr: "runTx e a h1 h2 h3 recordCb =
          evs @ [Trigger ''initiatingTransaction'' (Initiating stamp t0 pl),
                 RawRunCalled t0 h1 h2 h3] @ rest"
      using fr s d
      by (simp add: runTx_def Let_def t0_def pl_def stamp_def rest_def split: option.splits member.splits)
    have restNoRaw: "RawRunCalled t k1 k2 k3 \<notin> set rest"
      using runTx_resultCb_no_dispatch [of t k1 k2 k3 e t0 stamp pl]
      by (auto simp: rest_def split: option.splits member.splits)
    from disp tr noRaw restNoRaw
    have same: "t = t0" "k1 = h1" "k2 = h2" "k3 = h3" by auto
    have restNoExec: "\<And>y. y \<in> set rest \<Longrightarrow> \<not> isExecuted y"
      using rep same
      by (auto simp: rest_def runTx_resultCb_error recordCb_def split: option.splits member.splits)
    show "\<not> list_ex isExecuted (runTx e a h1 h2 h3 recordCb)"
      unfolding tr using noExec restNoExec by (auto simp: list_ex_iff)
  }
qed

theorem runTx_notification_order_witness:
  "runTx exampleEnv exampleArgs (CallerHook ''confirm'') (CallerHook ''continue'')
     (CallerHook ''prompt'') recordCb =
     [GetAccountsCalled ''VMProvider'',
      Trigger ''initiatingTransaction'' (Initiating (JNum 1600000000000) exampleTx examplePayLoad),
      RawRunCalled exampleTx (CallerHook ''confirm'') (CallerHook ''continue'') (CallerHook ''prompt'')]
     @ Trigger ''transactionExecuted''
         (Executed NoError (JStr ''0xA1'') (JStr ''0xD1'') (JStr ''0x6080'') (JBool False)
            exampleResult (JNum 1600000000000) examplePayLoad (JStr ''0xC1''))
     # [CheckVMErrorCalled exampleResult,
        CallbackCalled (CbRes exampleResult (JStr ''0xC1'') (RetValue (JStr ''0x2a'')))]
   \<and> list_ex isInitiating
        [GetAccountsCalled ''VMProvider'',
         Trigger ''initiatingTransaction'' (Initiating (JNum 1600000000000) exampleTx examplePayLoad),
         RawRunCalled exampleTx (CallerHook ''confirm'') (CallerHook ''continue'') (CallerHook ''prompt'')]
   \<and> RawRunCalled exampleTx (CallerHook ''confirm'') (CallerHook ''continue'') (CallerHook ''prompt'')
        \<in> set (runTx exampleCancelEnv exampleArgs (CallerHook ''confirm'') (CallerHook ''continue'')
                 (CallerHook ''prompt'') recordCb)
   \<and> resultCalled (rawRun exampleCancelEnv exampleTx (CallerHook ''confirm'')
        (CallerHook ''continue'') (CallerHook ''prompt''))
      = Some (ErrStr ''Transaction canceled by user.'', None)
   \<and> truthy_err (ErrStr ''Transaction canceled by user.'')
   \<and> \<not> list_ex isExecuted
         (runTx exampleCancelEnv exampleArgs (CallerHook ''confirm'') (CallerHook ''continue'')
            (CallerHook ''prompt'') recordCb)"
  using runTx_notification_order [of exampleEnv exampleArgs "CallerHook ''confirm''"
          "CallerHook ''continue''" "CallerHook ''prompt''" recordCb
          "[GetAccountsCalled ''VMProvider'',
            Trigger ''initiatingTransaction'' (Initiating (JNum 1600000000000) exampleTx examplePayLoad),
            RawRunCalled exampleTx (CallerHook ''confirm'') (CallerHook ''continue'') (CallerHook ''prompt'')]"
          "Trigger ''transactionExecuted''
             (Executed NoError (JStr ''0xA1'') (JStr ''0xD1'') (JStr ''0x6080'') (JBool False)
                exampleResult (JNum 1600000000000) examplePayLoad (JStr ''0xC1''))"
          "[CheckVMErrorCalled exampleResult,
            CallbackCalled (CbRes exampleResult (JStr ''0xC1'') (RetValue (JStr ''0x2a'')))]"
          exampleTx "CallerHook ''confirm''" "CallerHook ''continue''" "CallerHook ''prompt''"]
        runTx_notification_order [of exampleCancelEnv exampleArgs "CallerHook ''confirm''"
          "CallerHook ''continue''" "CallerHook ''prompt''" recordCb
          "[]" "Threw ''none''" "[]"
          exampleTx "CallerHook ''confirm''" "CallerHook ''continue''" "CallerHook ''prompt''"]
  by (simp add: exampleCancelEnv_def example_defs runTx_defs)

section \<open>Creating an account\<close>

text \<open>
  Claim C10. \<open>createVMAccount\<close> throws whenever the active provider name is not \<open>'vm'\<close>; when
  it is \<open>'vm'\<close>, the call is the account creation of the simulated provider, with the same
  argument and the same outcome.
\<close>

theorem createVMAccount_vm_only:
  "(getProvider e \<noteq> ''vm'' \<longrightarrow>
      createVMAccount e newAccount =
        Inl (ErrObj ''plugin API does not allow creating a new account through web3 connection. Only vm mode is allowed''))
   \<and> (getProvider e = ''vm'' \<longrightarrow> createVMAccount e newAccount = vm_createVMAccount e newAccount)"
  by (simp add: createVMAccount_def)

theorem createVMAccount_vm_only_witness:
  "getProvider exampleNodeEnv \<noteq> ''vm''
   \<and> createVMAccount exampleNodeEnv (JObj ''newAccount'') =
        Inl (ErrObj ''plugin API does not allow creating a new account through web3 connection. Only vm mode is allowed'')
   \<and> getProvider exampleEnv = ''vm''
   \<and> createVMAccount exampleEnv (JObj ''newAccount'') = Inr (JStr ''0xA3'')"
  using createVMAccount_vm_only [of exampleNodeEnv "JObj ''newAccount''"]
        createVMAccount_vm_only [of exampleEnv "JObj ''newAccount''"]
  by (simp add: exampleEnv_def exampleNodeEnv_def)

end
